theory Spec2Isabelle
  imports Main "HOL-Library.Sublist"
begin

section \<open>Running-location policy of the browser extension service\<close>

text \<open>
  The static method \<open>ExtensionService.pickRunningLocation\<close> decides where one extension
  runs. Its arguments are the extension's kinds (string literals compared with
  \<open>'ui'\<close>, \<open>'workspace'\<close> and \<open>'web'\<close>), two installation flags and a preference.
\<close>

type_synonym ExtensionKind = string

text \<open>
  Modelled from the spec: the enum declarations \<open>ExtensionRunningPreference\<close> and
  \<open>ExtensionRunningLocation\<close> are imported by the service and not part of the source
  slice. The members are the ones the spec lists and the method names (\<open>None\<close>,
  \<open>Local\<close>, \<open>Remote\<close> for the preference; \<open>None\<close>, \<open>LocalWebWorker\<close>, \<open>Remote\<close> for
  the location); the enum name is prefixed since \<open>None\<close> and \<open>Remote\<close> occur in both.
\<close>

datatype ExtensionRunningPreference =
  Preference_None | Preference_Local | Preference_Remote

datatype ExtensionRunningLocation =
  Location_None | Location_LocalWebWorker | Location_Remote

text \<open>
  The body of the \<open>for\<close> loop either leaves the method through a \<open>return\<close> or falls
  through to the next kind with the two locals \<open>result\<close> and \<open>canRunRemotely\<close>.
\<close>

datatype flow =
  Return ExtensionRunningLocation
  | Next "ExtensionRunningLocation list" bool

text \<open>The three \<open>if\<close> statements of the loop body, in the order of the source.\<close>

definition uiCheck ::
  "ExtensionKind \<Rightarrow> bool \<Rightarrow> ExtensionRunningPreference \<Rightarrow>
   ExtensionRunningLocation list \<Rightarrow> bool \<Rightarrow> flow" where
  "uiCheck extensionKind isInstalledRemotely preference result canRunRemotely =
     (if extensionKind = ''ui'' \<and> isInstalledRemotely then
        (if preference = Preference_Remote then Return Location_Remote
         else Next result True)
      else Next result canRunRemotely)"

definition workspaceCheck ::
  "ExtensionKind \<Rightarrow> bool \<Rightarrow> ExtensionRunningPreference \<Rightarrow>
   ExtensionRunningLocation list \<Rightarrow> bool \<Rightarrow> flow" where
  "workspaceCheck extensionKind isInstalledRemotely preference result canRunRemotely =
     (if extensionKind = ''workspace'' \<and> isInstalledRemotely then
        (if preference = Preference_None \<or> preference = Preference_Remote
         then Return Location_Remote
         else Next (result @ [Location_Remote]) canRunRemotely)
      else Next result canRunRemotely)"

definition webCheck ::
  "ExtensionKind \<Rightarrow> bool \<Rightarrow> ExtensionRunningPreference \<Rightarrow>
   ExtensionRunningLocation list \<Rightarrow> bool \<Rightarrow> flow" where
  "webCheck extensionKind isInstalledLocally preference result canRunRemotely =
     (if extensionKind = ''web'' \<and> isInstalledLocally then
        (if preference = Preference_None \<or> preference = Preference_Local
         then Return Location_LocalWebWorker
         else Next (result @ [Location_LocalWebWorker]) canRunRemotely)
      else Next result canRunRemotely)"

definition loopBody ::
  "ExtensionKind \<Rightarrow> bool \<Rightarrow> bool \<Rightarrow> ExtensionRunningPreference \<Rightarrow>
   ExtensionRunningLocation list \<Rightarrow> bool \<Rightarrow> flow" where
  "loopBody extensionKind isInstalledLocally isInstalledRemotely preference result canRunRemotely =
     (case uiCheck extensionKind isInstalledRemotely preference result canRunRemotely of
        Return l \<Rightarrow> Return l
      | Next r1 c1 \<Rightarrow>
          (case workspaceCheck extensionKind isInstalledRemotely preference r1 c1 of
             Return l \<Rightarrow> Return l
           | Next r2 c2 \<Rightarrow> webCheck extensionKind isInstalledLocally preference r2 c2))"

text \<open>
  The code after the loop: the last-resort push and
  \<open>result.length > 0 ? result[0] : ExtensionRunningLocation.None\<close>.
\<close>

definition afterLoop :: "ExtensionRunningLocation list \<Rightarrow> bool \<Rightarrow> ExtensionRunningLocation" where
  "afterLoop result canRunRemotely =
     (let result' = (if canRunRemotely then result @ [Location_Remote] else result)
      in if length result' > 0 then result' ! 0 else Location_None)"

fun pickLoop ::
  "ExtensionKind list \<Rightarrow> bool \<Rightarrow> bool \<Rightarrow> ExtensionRunningPreference \<Rightarrow>
   ExtensionRunningLocation list \<Rightarrow> bool \<Rightarrow> ExtensionRunningLocation" where
  "pickLoop [] isInstalledLocally isInstalledRemotely preference result canRunRemotely =
     afterLoop result canRunRemotely"
| "pickLoop (extensionKind # rest) isInstalledLocally isInstalledRemotely preference result canRunRemotely =
     (case loopBody extensionKind isInstalledLocally isInstalledRemotely preference result canRunRemotely of
        Return l \<Rightarrow> l
      | Next result' canRunRemotely' \<Rightarrow>
          pickLoop rest isInstalledLocally isInstalledRemotely preference result' canRunRemotely')"

definition pickRunningLocation ::
  "ExtensionKind list \<Rightarrow> bool \<Rightarrow> bool \<Rightarrow> ExtensionRunningPreference \<Rightarrow> ExtensionRunningLocation" where
  "pickRunningLocation extensionKinds isInstalledLocally isInstalledRemotely preference =
     pickLoop extensionKinds isInstalledLocally isInstalledRemotely preference [] False"

subsection \<open>The policy in the words of the specification\<close>

text \<open>
  The specification describes the outcome of the scan without the loop: which kinds
  decide at once, which candidates are deferred and in which order. These definitions
  follow its words; the theorems below compare them with \<open>pickRunningLocation\<close>.
\<close>

definition immediateReturn ::
  "ExtensionKind \<Rightarrow> bool \<Rightarrow> bool \<Rightarrow> ExtensionRunningPreference \<Rightarrow> bool" where
  "immediateReturn extensionKind isInstalledLocally isInstalledRemotely preference =
     ((extensionKind = ''workspace'' \<and> isInstalledRemotely
         \<and> (preference = Preference_None \<or> preference = Preference_Remote))
      \<or> (extensionKind = ''web'' \<and> isInstalledLocally
         \<and> (preference = Preference_None \<or> preference = Preference_Local))
      \<or> (extensionKind = ''ui'' \<and> isInstalledRemotely \<and> preference = Preference_Remote))"

definition deferredCandidates ::
  "ExtensionKind \<Rightarrow> bool \<Rightarrow> bool \<Rightarrow> ExtensionRunningPreference \<Rightarrow> ExtensionRunningLocation list" where
  "deferredCandidates extensionKind isInstalledLocally isInstalledRemotely preference =
     (if extensionKind = ''workspace'' \<and> isInstalledRemotely \<and> preference = Preference_Local
      then [Location_Remote]
      else if extensionKind = ''web'' \<and> isInstalledLocally \<and> preference = Preference_Remote
      then [Location_LocalWebWorker]
      else [])"

definition lastResortCandidate ::
  "ExtensionKind list \<Rightarrow> bool \<Rightarrow> ExtensionRunningPreference \<Rightarrow> ExtensionRunningLocation list" where
  "lastResortCandidate extensionKinds isInstalledRemotely preference =
     (if ''ui'' \<in> set extensionKinds \<and> isInstalledRemotely
         \<and> (preference = Preference_None \<or> preference = Preference_Local)
      then [Location_Remote] else [])"

definition candidatesInOrder ::
  "ExtensionKind list \<Rightarrow> bool \<Rightarrow> bool \<Rightarrow> ExtensionRunningPreference \<Rightarrow> ExtensionRunningLocation list" where
  "candidatesInOrder extensionKinds isInstalledLocally isInstalledRemotely preference =
     concat (map (\<lambda>k. deferredCandidates k isInstalledLocally isInstalledRemotely preference)
               extensionKinds)
     @ lastResortCandidate extensionKinds isInstalledRemotely preference"

definition firstCandidate :: "ExtensionRunningLocation list \<Rightarrow> ExtensionRunningLocation" where
  "firstCandidate candidates = (case candidates of [] \<Rightarrow> Location_None | l # _ \<Rightarrow> l)"

section \<open>The preload bridge of the sandboxed renderer\<close>

text \<open>
  The preload script wraps Electron's \<open>ipcRenderer\<close> and node's \<open>process\<close> and exposes
  the wrappers as \<open>globals\<close>. Electron and node are outside the repository: the model
  records each call they receive, in order, and nothing of what they do with it.
  A value the script only passes on (an argument, a message, a listener of the page)
  has the type \<open>'a\<close>.
\<close>

datatype error = Error string

type_synonym env = "string \<rightharpoonup> string"

datatype promise = Promise nat

text \<open>
  A listener is a function of the page or the closure that \<open>resolveEnv\<close> passes to
  \<open>ipcRenderer.once\<close>, which captures \<open>resolve\<close> of the new promise and \<open>userEnv\<close>.
\<close>

datatype 'a listener =
  PageListener 'a
  | AcceptShellEnvListener promise env

datatype 'a ipcCall =
  Send string "'a list"
  | PostMessage string 'a 'a
  | Invoke string "'a list"
  | On string "'a listener"
  | Once string "'a listener"
  | RemoveListener string "'a listener"

text \<open>
  The state the script reads and writes: the calls made on Electron's \<open>ipcRenderer\<close>,
  the listeners handed to \<open>process.on\<close>, \<open>process.env\<close>, the script's variable
  \<open>resolvedEnv\<close> (\<open>undefined\<close> is \<open>None\<close>), the number of promises created so far (the
  next promise's identity) and the promises resolved so far.
\<close>

record 'a renderer =
  ipcCalls :: "'a ipcCall list"
  processOnCalls :: "(string \<times> 'a) list"
  processEnv :: env
  resolvedEnv :: "promise option"
  promiseCount :: nat
  resolvedPromises :: "promise set"

text \<open>The state when the script starts: \<open>let resolvedEnv = undefined\<close>.\<close>

definition initialRenderer :: "env \<Rightarrow> 'a renderer" where
  "initialRenderer environment =
     \<lparr>ipcCalls = [], processOnCalls = [], processEnv = environment, resolvedEnv = None,
      promiseCount = 0, resolvedPromises = {}\<rparr>"

subsection \<open>Electron's and node's side\<close>

definition ipcRenderer_send :: "string \<Rightarrow> 'a list \<Rightarrow> 'a renderer \<Rightarrow> 'a renderer" where
  "ipcRenderer_send channel args s = s\<lparr>ipcCalls := ipcCalls s @ [Send channel args]\<rparr>"

definition ipcRenderer_postMessage :: "string \<Rightarrow> 'a \<Rightarrow> 'a \<Rightarrow> 'a renderer \<Rightarrow> 'a renderer" where
  "ipcRenderer_postMessage channel message transfer s =
     s\<lparr>ipcCalls := ipcCalls s @ [PostMessage channel message transfer]\<rparr>"

text \<open>\<open>ipcRenderer.invoke\<close> returns a promise of the answer.\<close>

definition ipcRenderer_invoke :: "string \<Rightarrow> 'a list \<Rightarrow> 'a renderer \<Rightarrow> promise \<times> 'a renderer" where
  "ipcRenderer_invoke channel args s =
     (Promise (promiseCount s),
      s\<lparr>ipcCalls := ipcCalls s @ [Invoke channel args], promiseCount := Suc (promiseCount s)\<rparr>)"

definition ipcRenderer_on :: "string \<Rightarrow> 'a listener \<Rightarrow> 'a renderer \<Rightarrow> 'a renderer" where
  "ipcRenderer_on channel listener s = s\<lparr>ipcCalls := ipcCalls s @ [On channel listener]\<rparr>"

definition ipcRenderer_once :: "string \<Rightarrow> 'a listener \<Rightarrow> 'a renderer \<Rightarrow> 'a renderer" where
  "ipcRenderer_once channel listener s = s\<lparr>ipcCalls := ipcCalls s @ [Once channel listener]\<rparr>"

definition ipcRenderer_removeListener :: "string \<Rightarrow> 'a listener \<Rightarrow> 'a renderer \<Rightarrow> 'a renderer" where
  "ipcRenderer_removeListener channel listener s =
     s\<lparr>ipcCalls := ipcCalls s @ [RemoveListener channel listener]\<rparr>"

definition process_on :: "string \<Rightarrow> 'a \<Rightarrow> 'a renderer \<Rightarrow> 'a renderer" where
  "process_on type callback s = s\<lparr>processOnCalls := processOnCalls s @ [(type, callback)]\<rparr>"

subsection \<open>Utilities\<close>

text \<open>
  \<open>validateIPC\<close> throws unless the channel is a non-empty string that starts with
  \<open>vscode:\<close>; \<open>!channel\<close> holds of the empty string. A \<open>throw\<close> is the value \<open>Inl\<close>.
\<close>

definition validateIPC :: "string \<Rightarrow> error + bool" where
  "validateIPC channel =
     (if channel = [] \<or> \<not> prefix ''vscode:'' channel
      then Inl (Error (''Unsupported event IPC channel '' @ [CHR 0x27] @ channel @ [CHR 0x27]))
      else Inr True)"

definition validateProcessEventType :: "string \<Rightarrow> error + bool" where
  "validateProcessEventType type =
     (if type \<noteq> ''uncaughtException''
      then Inl (Error (''Unsupported process event '' @ [CHR 0x27] @ type @ [CHR 0x27]))
      else Inr True)"

text \<open>
  The body of the listener that \<open>resolveEnv\<close> registers:
  \<open>Object.assign(process.env, shellEnv, userEnv); resolve()\<close>.
\<close>

definition acceptShellEnv :: "promise \<Rightarrow> env \<Rightarrow> env \<Rightarrow> 'a renderer \<Rightarrow> 'a renderer" where
  "acceptShellEnv p userEnv shellEnv s =
     s\<lparr>processEnv := processEnv s ++ shellEnv ++ userEnv,
       resolvedPromises := insert p (resolvedPromises s)\<rparr>"

text \<open>
  \<open>resolveEnv\<close>: the executor of \<open>new Promise\<close> runs inside the constructor, so the two
  calls on \<open>ipcRenderer\<close> happen before the promise is stored in \<open>resolvedEnv\<close>.
\<close>

definition resolveEnv :: "env \<Rightarrow> 'a renderer \<Rightarrow> promise \<times> 'a renderer" where
  "resolveEnv userEnv s =
     (case resolvedEnv s of
        None \<Rightarrow>
          (let s1 = s\<lparr>processEnv := processEnv s ++ userEnv\<rparr>;
               p = Promise (promiseCount s1);
               s2 = s1\<lparr>promiseCount := Suc (promiseCount s1)\<rparr>;
               s3 = ipcRenderer_once ''vscode:acceptShellEnv'' (AcceptShellEnvListener p userEnv) s2;
               s4 = ipcRenderer_send ''vscode:fetchShellEnv'' [] s3;
               s5 = s4\<lparr>resolvedEnv := Some p\<rparr>
           in (p, s5))
      | Some p \<Rightarrow> (p, s))"

text \<open>A page that calls \<open>resolveEnv\<close> several times in a row, with these arguments.\<close>

fun resolveEnvCalls :: "env list \<Rightarrow> 'a renderer \<Rightarrow> promise list \<times> 'a renderer" where
  "resolveEnvCalls [] s = ([], s)"
| "resolveEnvCalls (userEnv # userEnvs) s =
     (let (p, s1) = resolveEnv userEnv s;
          (ps, s2) = resolveEnvCalls userEnvs s1
      in (p # ps, s2))"

subsection \<open>The exposed globals\<close>

definition globals_ipcRenderer_send ::
  "string \<Rightarrow> 'a list \<Rightarrow> 'a renderer \<Rightarrow> (error + unit) \<times> 'a renderer" where
  "globals_ipcRenderer_send channel args s =
     (case validateIPC channel of
        Inl e \<Rightarrow> (Inl e, s)
      | Inr valid \<Rightarrow>
          if valid then (Inr (), ipcRenderer_send channel args s) else (Inr (), s))"

definition globals_ipcRenderer_postMessage ::
  "string \<Rightarrow> 'a \<Rightarrow> 'a \<Rightarrow> 'a renderer \<Rightarrow> (error + unit) \<times> 'a renderer" where
  "globals_ipcRenderer_postMessage channel message transfer s =
     (case validateIPC channel of
        Inl e \<Rightarrow> (Inl e, s)
      | Inr valid \<Rightarrow>
          if valid then (Inr (), ipcRenderer_postMessage channel message transfer s)
          else (Inr (), s))"

text \<open>\<open>invoke\<close> returns the promise of \<open>ipcRenderer.invoke\<close>, or \<open>undefined\<close> (\<open>None\<close>).\<close>

definition globals_ipcRenderer_invoke ::
  "string \<Rightarrow> 'a list \<Rightarrow> 'a renderer \<Rightarrow> (error + promise option) \<times> 'a renderer" where
  "globals_ipcRenderer_invoke channel args s =
     (case validateIPC channel of
        Inl e \<Rightarrow> (Inl e, s)
      | Inr valid \<Rightarrow>
          if valid then (let (p, s') = ipcRenderer_invoke channel args s in (Inr (Some p), s'))
          else (Inr None, s))"

definition globals_ipcRenderer_on ::
  "string \<Rightarrow> 'a \<Rightarrow> 'a renderer \<Rightarrow> (error + unit) \<times> 'a renderer" where
  "globals_ipcRenderer_on channel listener s =
     (case validateIPC channel of
        Inl e \<Rightarrow> (Inl e, s)
      | Inr valid \<Rightarrow>
          if valid then (Inr (), ipcRenderer_on channel (PageListener listener) s)
          else (Inr (), s))"

definition globals_ipcRenderer_once ::
  "string \<Rightarrow> 'a \<Rightarrow> 'a renderer \<Rightarrow> (error + unit) \<times> 'a renderer" where
  "globals_ipcRenderer_once channel listener s =
     (case validateIPC channel of
        Inl e \<Rightarrow> (Inl e, s)
      | Inr valid \<Rightarrow>
          if valid then (Inr (), ipcRenderer_once channel (PageListener listener) s)
          else (Inr (), s))"

definition globals_ipcRenderer_removeListener ::
  "string \<Rightarrow> 'a \<Rightarrow> 'a renderer \<Rightarrow> (error + unit) \<times> 'a renderer" where
  "globals_ipcRenderer_removeListener channel listener s =
     (case validateIPC channel of
        Inl e \<Rightarrow> (Inl e, s)
      | Inr valid \<Rightarrow>
          if valid then (Inr (), ipcRenderer_removeListener channel (PageListener listener) s)
          else (Inr (), s))"

definition globals_process_resolveEnv :: "env \<Rightarrow> 'a renderer \<Rightarrow> promise \<times> 'a renderer" where
  "globals_process_resolveEnv userEnv s = resolveEnv userEnv s"

definition globals_process_on ::
  "string \<Rightarrow> 'a \<Rightarrow> 'a renderer \<Rightarrow> (error + unit) \<times> 'a renderer" where
  "globals_process_on type callback s =
     (case validateProcessEventType type of
        Inl e \<Rightarrow> (Inl e, s)
      | Inr valid \<Rightarrow>
          if valid then (Inr (), process_on type callback s) else (Inr (), s))"

section \<open>Properties of the running-location policy\<close>

subsection \<open>The loop body and the code after the loop\<close>

lemmas check_defs = uiCheck_def workspaceCheck_def webCheck_def loopBody_def afterLoop_def

text \<open>A kind is one string, so at most one of the three \<open>if\<close> statements applies to it.\<close>

lemma loopBody_eq:
  "loopBody k il ir p r c =
     (if k = ''ui'' \<and> ir then (if p = Preference_Remote then Return Location_Remote else Next r True)
      else if k = ''workspace'' \<and> ir then
        (if p = Preference_None \<or> p = Preference_Remote then Return Location_Remote
         else Next (r @ [Location_Remote]) c)
      else if k = ''web'' \<and> il then
        (if p = Preference_None \<or> p = Preference_Local then Return Location_LocalWebWorker
         else Next (r @ [Location_LocalWebWorker]) c)
      else Next r c)"
  by (simp add: loopBody_def uiCheck_def workspaceCheck_def webCheck_def)

lemma afterLoop_eq:
  "afterLoop r c = firstCandidate (r @ (if c then [Location_Remote] else []))"
  by (cases r) (simp_all add: afterLoop_def firstCandidate_def)

lemma loopBody_deferred:
  "\<not> immediateReturn k il ir p \<Longrightarrow>
   loopBody k il ir p r c =
     Next (r @ deferredCandidates k il ir p) (c \<or> (k = ''ui'' \<and> ir \<and> p \<noteq> Preference_Remote))"
  by (cases p) (auto simp add: loopBody_eq immediateReturn_def deferredCandidates_def)

lemma loopBody_Return_installed:
  "loopBody k il ir p r c = Return l \<Longrightarrow>
   (l = Location_Remote \<longrightarrow> ir) \<and> (l = Location_LocalWebWorker \<longrightarrow> il) \<and> l \<noteq> Location_None"
  by (auto simp add: loopBody_eq split: if_splits)

lemma loopBody_Next_installed:
  "loopBody k il ir p r c = Next r' c' \<Longrightarrow>
   (Location_Remote \<in> set r \<longrightarrow> ir) \<Longrightarrow> (Location_LocalWebWorker \<in> set r \<longrightarrow> il) \<Longrightarrow> (c \<longrightarrow> ir) \<Longrightarrow>
   (Location_Remote \<in> set r' \<longrightarrow> ir) \<and> (Location_LocalWebWorker \<in> set r' \<longrightarrow> il) \<and> (c' \<longrightarrow> ir)"
  by (auto simp add: loopBody_eq split: if_splits)

lemma loopBody_Next_no_None:
  "loopBody k il ir p r c = Next r' c' \<Longrightarrow> Location_None \<notin> set r \<Longrightarrow> Location_None \<notin> set r'"
  by (auto simp add: loopBody_eq split: if_splits)

text \<open>Only a \<open>ui\<close> kind writes \<open>canRunRemotely\<close>; any other kind passes it on.\<close>

lemma loopBody_flag:
  "k \<noteq> ''ui'' \<Longrightarrow>
   loopBody k il ir p r c =
     (case loopBody k il ir p r False of Return l \<Rightarrow> Return l | Next r' _ \<Rightarrow> Next r' c)"
  by (simp add: loopBody_eq)

lemma afterLoop_installed:
  "(Location_Remote \<in> set r \<longrightarrow> ir) \<Longrightarrow> (Location_LocalWebWorker \<in> set r \<longrightarrow> il) \<Longrightarrow> (c \<longrightarrow> ir) \<Longrightarrow>
   (afterLoop r c = Location_Remote \<longrightarrow> ir) \<and> (afterLoop r c = Location_LocalWebWorker \<longrightarrow> il)"
  by (cases r) (auto simp add: afterLoop_def)

subsection \<open>The loop from an arbitrary intermediate state\<close>

lemma pickLoop_deferred:
  "\<forall>k \<in> set ks. \<not> immediateReturn k il ir p \<Longrightarrow>
   pickLoop ks il ir p r c =
     afterLoop (r @ concat (map (\<lambda>k. deferredCandidates k il ir p) ks))
       (c \<or> (''ui'' \<in> set ks \<and> ir \<and> p \<noteq> Preference_Remote))"
proof (induction ks arbitrary: r c)
  case Nil
  then show ?case by simp
next
  case (Cons k ks)
  then have k: "\<not> immediateReturn k il ir p" and ks: "\<forall>k \<in> set ks. \<not> immediateReturn k il ir p"
    by simp_all
  show ?case
    by (simp add: loopBody_deferred [OF k] Cons.IH [OF ks]) (auto simp: afterLoop_eq)
qed

lemma workspace_reached:
  assumes "p = Preference_None \<or> p = Preference_Remote"
    and "\<not> (p = Preference_None \<and> il \<and> ''web'' \<in> set before)"
  shows "pickLoop (before @ ''workspace'' # rest) il True p r c = Location_Remote"
  using assms
  by (induction before arbitrary: r c) (auto simp add: loopBody_eq)

lemma web_reached:
  assumes "p = Preference_None \<or> p = Preference_Local"
    and "\<not> (p = Preference_None \<and> ir \<and> ''workspace'' \<in> set before)"
  shows "pickLoop (before @ ''web'' # rest) True ir p r c = Location_LocalWebWorker"
  using assms
  by (induction before arbitrary: r c) (auto simp add: loopBody_eq)

lemma web_returns_first:
  assumes "''web'' \<in> set before" and "''workspace'' \<notin> set before"
  shows "pickLoop (before @ rest) True ir Preference_None r c = Location_LocalWebWorker"
  using assms
  by (induction before arbitrary: r c) (auto simp add: loopBody_eq)

lemma workspace_returns_first:
  assumes "''workspace'' \<in> set before" and "''web'' \<notin> set before"
  shows "pickLoop (before @ rest) il True Preference_None r c = Location_Remote"
  using assms
  by (induction before arbitrary: r c) (auto simp add: loopBody_eq)

lemma ui_reached_remote:
  "pickLoop (before @ ''ui'' # rest) il True Preference_Remote r c = Location_Remote"
  by (induction before arbitrary: r c) (auto simp add: loopBody_eq)

lemma pickLoop_drop_ui:
  "p \<noteq> Preference_Remote \<Longrightarrow>
   pickLoop ks il True p r c =
   pickLoop (filter (\<lambda>k. k \<noteq> ''ui'') ks) il True p r (c \<or> ''ui'' \<in> set ks)"
  by (induction ks arbitrary: r c) (auto simp add: loopBody_eq)

lemma pickLoop_last_resort:
  "''ui'' \<notin> set ks \<Longrightarrow> Location_None \<notin> set r \<Longrightarrow>
   pickLoop ks il ir p r True =
     (let l = pickLoop ks il ir p r False in if l = Location_None then Location_Remote else l)"
proof (induction ks arbitrary: r)
  case Nil
  then show ?case by (cases r) (auto simp add: afterLoop_def)
next
  case (Cons k ks)
  have k: "k \<noteq> ''ui''" and ks: "''ui'' \<notin> set ks"
    using Cons.prems(1) by auto
  show ?case
  proof (cases "loopBody k il ir p r False")
    case (Return l)
    then have "loopBody k il ir p r True = Return l"
      using loopBody_flag [OF k, of il ir p r True] by simp
    moreover have "l \<noteq> Location_None"
      using loopBody_Return_installed [OF Return] by simp
    ultimately show ?thesis using Return by simp
  next
    case (Next r' c')
    then have t: "loopBody k il ir p r True = Next r' True"
      using loopBody_flag [OF k, of il ir p r True] by simp
    have f: "loopBody k il ir p r False = Next r' False"
      using loopBody_flag [OF k, of il ir p r False] Next by simp
    have "Location_None \<notin> set r'"
      using loopBody_Next_no_None [OF Next Cons.prems(2)] .
    from Cons.IH [OF ks this] show ?thesis by (simp add: t f)
  qed
qed

lemma pickLoop_installed:
  "(Location_Remote \<in> set r \<longrightarrow> ir) \<Longrightarrow> (Location_LocalWebWorker \<in> set r \<longrightarrow> il) \<Longrightarrow> (c \<longrightarrow> ir) \<Longrightarrow>
   (pickLoop ks il ir p r c = Location_Remote \<longrightarrow> ir) \<and>
   (pickLoop ks il ir p r c = Location_LocalWebWorker \<longrightarrow> il)"
proof (induction ks arbitrary: r c)
  case Nil
  then show ?case using afterLoop_installed [of r ir il c] by simp
next
  case (Cons k ks)
  show ?case
  proof (cases "loopBody k il ir p r c")
    case (Return l)
    then show ?thesis using loopBody_Return_installed [OF Return] by simp
  next
    case (Next r' c')
    from loopBody_Next_installed [OF Next Cons.prems]
    have "(pickLoop ks il ir p r' c' = Location_Remote \<longrightarrow> ir) \<and>
          (pickLoop ks il ir p r' c' = Location_LocalWebWorker \<longrightarrow> il)"
      by (intro Cons.IH) simp_all
    then show ?thesis using Next by simp
  qed
qed

subsection \<open>The deferred candidates\<close>

text \<open>
  C1: when no kind of the list triggers an immediate return, the method returns the
  first element of the list of candidates in kind order (\<open>Remote\<close> for a \<open>workspace\<close>
  kind installed remotely under preference \<open>Local\<close>, \<open>LocalWebWorker\<close> for a \<open>web\<close>
  kind installed locally under preference \<open>Remote\<close>), followed by one last-resort
  \<open>Remote\<close> when some \<open>ui\<close> kind is installed remotely under preference \<open>None\<close> or
  \<open>Local\<close>; when that list is empty it returns \<open>None\<close>.
\<close>

theorem pickRunningLocation_first_deferred:
  assumes "\<forall>k \<in> set extensionKinds.
             \<not> immediateReturn k isInstalledLocally isInstalledRemotely preference"
  shows "pickRunningLocation extensionKinds isInstalledLocally isInstalledRemotely preference =
     firstCandidate (candidatesInOrder extensionKinds isInstalledLocally isInstalledRemotely preference)"
  using assms
  by (cases preference)
    (auto simp add: pickRunningLocation_def pickLoop_deferred afterLoop_eq
      candidatesInOrder_def lastResortCandidate_def)

theorem pickRunningLocation_first_deferred_witness:
  "\<not> immediateReturn ''ui'' True False Preference_Remote
   \<and> \<not> immediateReturn ''web'' True False Preference_Remote
   \<and> candidatesInOrder [''ui'', ''web''] True False Preference_Remote = [Location_LocalWebWorker]
   \<and> pickRunningLocation [''ui'', ''web''] True False Preference_Remote = Location_LocalWebWorker
   \<and> \<not> immediateReturn ''workspace'' False True Preference_Local
   \<and> \<not> immediateReturn ''web'' False True Preference_Local
   \<and> candidatesInOrder [''web'', ''workspace''] False True Preference_Local = [Location_Remote]
   \<and> pickRunningLocation [''web'', ''workspace''] False True Preference_Local = Location_Remote
   \<and> candidatesInOrder [''web''] False False Preference_None = []
   \<and> pickRunningLocation [''web''] False False Preference_None = Location_None"
  using pickRunningLocation_first_deferred [of "[''ui'', ''web'']" True False Preference_Remote]
    pickRunningLocation_first_deferred [of "[''web'', ''workspace'']" False True Preference_Local]
    pickRunningLocation_first_deferred [of "[''web'']" False False Preference_None]
  by (simp add: immediateReturn_def candidatesInOrder_def deferredCandidates_def
      lastResortCandidate_def firstCandidate_def)

subsection \<open>Immediate returns\<close>

text \<open>
  C2, as stated, fails: a \<open>web\<close> kind that comes first, installed locally, returns
  \<open>LocalWebWorker\<close> under preference \<open>None\<close> before the \<open>workspace\<close> kind is reached.
\<close>

theorem workspace_not_always_Remote:
  "''workspace'' \<in> set [''web'', ''workspace'']
   \<and> pickRunningLocation [''web'', ''workspace''] True True Preference_None \<noteq> Location_Remote
   \<and> pickRunningLocation [''web'', ''workspace''] True True Preference_None = Location_LocalWebWorker"
  by (simp add: pickRunningLocation_def check_defs)

text \<open>
  C2, amended: with \<open>isInstalledRemotely\<close> and preference \<open>None\<close> or \<open>Remote\<close>, the loop
  body at a \<open>workspace\<close> kind returns \<open>Remote\<close> whatever was collected before, and the
  method returns \<open>Remote\<close> for a list whose first \<open>workspace\<close> kind is preceded by the
  kinds \<open>before\<close> and followed by any kinds \<open>rest\<close>, unless the preference is \<open>None\<close>,
  the extension is installed locally and a \<open>web\<close> kind is among \<open>before\<close>: then that
  \<open>web\<close> kind has returned \<open>LocalWebWorker\<close> already.
\<close>

theorem workspace_Remote_when_reached:
  assumes "preference = Preference_None \<or> preference = Preference_Remote"
    and "''workspace'' \<notin> set before"
  shows "pickRunningLocation (before @ ''workspace'' # rest) isInstalledLocally True preference =
           (if preference = Preference_None \<and> isInstalledLocally \<and> ''web'' \<in> set before
            then Location_LocalWebWorker else Location_Remote)
         \<and> loopBody ''workspace'' isInstalledLocally True preference result canRunRemotely =
           Return Location_Remote"
proof (cases "preference = Preference_None \<and> isInstalledLocally \<and> ''web'' \<in> set before")
  case True
  then show ?thesis
    using web_returns_first [of before "''workspace'' # rest" True "[]" False] assms(2)
    by (simp add: pickRunningLocation_def loopBody_eq)
next
  case False
  then show ?thesis
    using workspace_reached [OF assms(1), of isInstalledLocally before rest "[]" False] assms(1)
    by (auto simp add: pickRunningLocation_def loopBody_eq)
qed

theorem workspace_Remote_when_reached_witness:
  "pickRunningLocation ([''ui'', ''web''] @ ''workspace'' # [''web'']) False True Preference_None
     = Location_Remote
   \<and> pickRunningLocation ([''ui'', ''web''] @ ''workspace'' # [''web'']) True True Preference_Remote
     = Location_Remote
   \<and> pickRunningLocation ([''ui'', ''web''] @ ''workspace'' # [''web'']) True True Preference_None
     = Location_LocalWebWorker"
  using workspace_Remote_when_reached [of Preference_None "[''ui'', ''web'']" "[''web'']" False]
    workspace_Remote_when_reached [of Preference_Remote "[''ui'', ''web'']" "[''web'']" True]
    workspace_Remote_when_reached [of Preference_None "[''ui'', ''web'']" "[''web'']" True]
  by simp

text \<open>
  C3, as stated, fails: a \<open>workspace\<close> kind that comes first, installed remotely,
  returns \<open>Remote\<close> under preference \<open>None\<close> before the \<open>web\<close> kind is reached.
\<close>

theorem web_not_always_LocalWebWorker:
  "''web'' \<in> set [''workspace'', ''web'']
   \<and> pickRunningLocation [''workspace'', ''web''] True True Preference_None \<noteq> Location_LocalWebWorker
   \<and> pickRunningLocation [''workspace'', ''web''] True True Preference_None = Location_Remote"
  by (simp add: pickRunningLocation_def check_defs)

text \<open>
  C3, amended: with \<open>isInstalledLocally\<close> and preference \<open>None\<close> or \<open>Local\<close>, the loop
  body at a \<open>web\<close> kind returns \<open>LocalWebWorker\<close> whatever was collected before, and the
  method returns \<open>LocalWebWorker\<close> for a list whose first \<open>web\<close> kind is preceded by
  the kinds \<open>before\<close> and followed by any kinds \<open>rest\<close>, unless the preference is
  \<open>None\<close>, the extension is installed remotely and a \<open>workspace\<close> kind is among
  \<open>before\<close>: then that \<open>workspace\<close> kind has returned \<open>Remote\<close> already.
\<close>

theorem web_LocalWebWorker_when_reached:
  assumes "preference = Preference_None \<or> preference = Preference_Local"
    and "''web'' \<notin> set before"
  shows "pickRunningLocation (before @ ''web'' # rest) True isInstalledRemotely preference =
           (if preference = Preference_None \<and> isInstalledRemotely \<and> ''workspace'' \<in> set before
            then Location_Remote else Location_LocalWebWorker)
         \<and> loopBody ''web'' True isInstalledRemotely preference result canRunRemotely =
           Return Location_LocalWebWorker"
proof (cases "preference = Preference_None \<and> isInstalledRemotely \<and> ''workspace'' \<in> set before")
  case True
  then show ?thesis
    using workspace_returns_first [of before "''web'' # rest" True "[]" False] assms(2)
    by (simp add: pickRunningLocation_def loopBody_eq)
next
  case False
  then show ?thesis
    using web_reached [OF assms(1), of isInstalledRemotely before rest "[]" False] assms(1)
    by (auto simp add: pickRunningLocation_def loopBody_eq)
qed

theorem web_LocalWebWorker_when_reached_witness:
  "pickRunningLocation ([''ui'', ''workspace''] @ ''web'' # [''workspace'']) True False Preference_None
     = Location_LocalWebWorker
   \<and> pickRunningLocation ([''ui'', ''workspace''] @ ''web'' # [''workspace'']) True True Preference_Local
     = Location_LocalWebWorker
   \<and> pickRunningLocation ([''ui'', ''workspace''] @ ''web'' # [''workspace'']) True True Preference_None
     = Location_Remote"
  using web_LocalWebWorker_when_reached [of Preference_None "[''ui'', ''workspace'']" "[''workspace'']" False]
    web_LocalWebWorker_when_reached [of Preference_Local "[''ui'', ''workspace'']" "[''workspace'']" True]
    web_LocalWebWorker_when_reached [of Preference_None "[''ui'', ''workspace'']" "[''workspace'']" True]
  by simp

text \<open>
  C4: for a list containing \<open>ui\<close>, installed remotely. Under preference \<open>Remote\<close> the
  method returns \<open>Remote\<close>, and the loop body at a \<open>ui\<close> kind returns it at once.
  Under preference \<open>None\<close> or \<open>Local\<close> the loop body at a \<open>ui\<close> kind never returns: it
  leaves \<open>result\<close> as it is and sets \<open>canRunRemotely\<close>; after the loop that flag
  appends \<open>Remote\<close> behind every candidate collected; and the method returns what it
  returns for the list without its \<open>ui\<close> kinds, with \<open>Remote\<close> in place of \<open>None\<close>.
\<close>

theorem ui_Remote_only_as_last_resort:
  "pickRunningLocation (before @ ''ui'' # rest) isInstalledLocally True Preference_Remote
     = Location_Remote
   \<and> loopBody ''ui'' isInstalledLocally True Preference_Remote result canRunRemotely
     = Return Location_Remote
   \<and> (preference = Preference_None \<or> preference = Preference_Local \<longrightarrow>
        loopBody ''ui'' isInstalledLocally True preference result canRunRemotely = Next result True
        \<and> afterLoop result True = (result @ [Location_Remote]) ! 0
        \<and> pickRunningLocation (before @ ''ui'' # rest) isInstalledLocally True preference =
            (let l = pickRunningLocation (filter (\<lambda>k. k \<noteq> ''ui'') (before @ ''ui'' # rest))
                       isInstalledLocally True preference
             in if l = Location_None then Location_Remote else l))"
proof -
  let ?ks = "before @ ''ui'' # rest"
  have a: "pickRunningLocation ?ks isInstalledLocally True Preference_Remote = Location_Remote"
    by (simp add: pickRunningLocation_def ui_reached_remote)
  have b: "loopBody ''ui'' isInstalledLocally True Preference_Remote result canRunRemotely
      = Return Location_Remote"
    by (simp add: loopBody_eq)
  have c: "loopBody ''ui'' isInstalledLocally True preference result canRunRemotely = Next result True"
    if "preference = Preference_None \<or> preference = Preference_Local"
    using that by (auto simp add: loopBody_eq)
  have d: "afterLoop result True = (result @ [Location_Remote]) ! 0"
    by (simp add: afterLoop_def)
  have e: "pickRunningLocation ?ks isInstalledLocally True preference =
            (let l = pickRunningLocation (filter (\<lambda>k. k \<noteq> ''ui'') ?ks) isInstalledLocally True preference
             in if l = Location_None then Location_Remote else l)"
    if "preference = Preference_None \<or> preference = Preference_Local"
  proof -
    have p: "preference \<noteq> Preference_Remote" using that by auto
    have "pickLoop ?ks isInstalledLocally True preference [] False =
          pickLoop (filter (\<lambda>k. k \<noteq> ''ui'') ?ks) isInstalledLocally True preference [] True"
      using pickLoop_drop_ui [OF p, of ?ks isInstalledLocally "[]" False] by simp
    also have "\<dots> =
        (let l = pickLoop (filter (\<lambda>k. k \<noteq> ''ui'') ?ks) isInstalledLocally True preference [] False
         in if l = Location_None then Location_Remote else l)"
      by (rule pickLoop_last_resort) simp_all
    finally show ?thesis by (simp add: pickRunningLocation_def)
  qed
  from a b c d e show ?thesis by blast
qed

theorem ui_Remote_only_as_last_resort_witness:
  "pickRunningLocation ([''web''] @ ''ui'' # [''workspace'']) True True Preference_Remote = Location_Remote
   \<and> loopBody ''ui'' False True Preference_None [Location_LocalWebWorker] False
       = Next [Location_LocalWebWorker] True
   \<and> afterLoop [Location_LocalWebWorker] True = Location_LocalWebWorker
   \<and> pickRunningLocation ([] @ ''ui'' # [''web'']) False True Preference_None = Location_Remote
   \<and> pickRunningLocation [''web''] False True Preference_None = Location_None"
  using ui_Remote_only_as_last_resort [of "[''web'']" "[''workspace'']" True "[]" False Preference_Remote]
    ui_Remote_only_as_last_resort [of "[]" "[''web'']" False "[Location_LocalWebWorker]" False Preference_None]
  by (simp add: pickRunningLocation_def check_defs)

subsection \<open>Concrete rows of the decision table\<close>

text \<open>
  C5: for the kinds list \<open>['ui']\<close>, installed neither locally nor remotely, the method
  returns \<open>None\<close> whatever the preference is.
\<close>

theorem ui_not_installed_is_None:
  "pickRunningLocation [''ui''] False False preference = Location_None"
  by (simp add: pickRunningLocation_def check_defs)

text \<open>
  C6: for the kinds list \<open>['workspace', 'web']\<close>, installed locally and remotely, with
  preference \<open>Local\<close>, the method returns \<open>LocalWebWorker\<close>: the \<open>workspace\<close> kind only
  defers a \<open>Remote\<close> candidate and the \<open>web\<close> kind returns at once.
\<close>

theorem workspace_web_local_is_LocalWebWorker:
  "pickRunningLocation [''workspace'', ''web''] True True Preference_Local = Location_LocalWebWorker
   \<and> loopBody ''workspace'' True True Preference_Local [] False = Next [Location_Remote] False
   \<and> loopBody ''web'' True True Preference_Local [Location_Remote] False = Return Location_LocalWebWorker"
  by (simp add: pickRunningLocation_def check_defs)

subsection \<open>Installation flags\<close>

text \<open>
  C10: the method returns \<open>Remote\<close> only for an extension installed remotely and
  \<open>LocalWebWorker\<close> only for one installed locally; for the empty kinds list it
  returns \<open>None\<close>.
\<close>

theorem pickRunningLocation_respects_installation:
  "(pickRunningLocation extensionKinds isInstalledLocally isInstalledRemotely preference
      = Location_Remote \<longrightarrow> isInstalledRemotely)
   \<and> (pickRunningLocation extensionKinds isInstalledLocally isInstalledRemotely preference
      = Location_LocalWebWorker \<longrightarrow> isInstalledLocally)
   \<and> pickRunningLocation [] isInstalledLocally isInstalledRemotely preference = Location_None"
  using pickLoop_installed [of "[]" isInstalledRemotely isInstalledLocally False extensionKinds preference]
  by (simp add: pickRunningLocation_def afterLoop_def)

theorem pickRunningLocation_respects_installation_witness:
  "pickRunningLocation [''ui''] False True Preference_None = Location_Remote
   \<and> pickRunningLocation [''web''] True False Preference_None = Location_LocalWebWorker
   \<and> pickRunningLocation [''workspace'', ''ui'', ''web''] True False Preference_Remote \<noteq> Location_Remote
   \<and> pickRunningLocation [''workspace'', ''ui'', ''web''] False True Preference_Local \<noteq> Location_LocalWebWorker
   \<and> pickRunningLocation [] True True Preference_Remote = Location_None"
  using pickRunningLocation_respects_installation [of "[''ui'']" False True Preference_None]
    pickRunningLocation_respects_installation [of "[''web'']" True False Preference_None]
    pickRunningLocation_respects_installation [of "[''workspace'', ''ui'', ''web'']" True False Preference_Remote]
    pickRunningLocation_respects_installation [of "[''workspace'', ''ui'', ''web'']" False True Preference_Local]
  by (simp add: pickRunningLocation_def check_defs)

section \<open>Properties of the preload bridge\<close>

lemmas ipcRenderer_defs = ipcRenderer_send_def ipcRenderer_postMessage_def ipcRenderer_invoke_def
  ipcRenderer_on_def ipcRenderer_once_def ipcRenderer_removeListener_def

lemmas globals_ipcRenderer_defs = globals_ipcRenderer_send_def globals_ipcRenderer_postMessage_def
  globals_ipcRenderer_invoke_def globals_ipcRenderer_on_def globals_ipcRenderer_once_def
  globals_ipcRenderer_removeListener_def

lemma validateIPC_invalid:
  "\<not> prefix ''vscode:'' channel \<Longrightarrow>
   validateIPC channel =
     Inl (Error (''Unsupported event IPC channel '' @ [CHR 0x27] @ channel @ [CHR 0x27]))"
  by (simp add: validateIPC_def)

lemma validateIPC_valid:
  "prefix ''vscode:'' channel \<Longrightarrow> validateIPC channel = Inr True"
  by (auto simp add: validateIPC_def)

text \<open>A channel with the prefix reaches Electron: the wrappers are not closed doors.\<close>

lemma valid_channel_reaches_ipcRenderer:
  assumes "prefix ''vscode:'' channel"
  shows "globals_ipcRenderer_send channel args s =
           (Inr (), s\<lparr>ipcCalls := ipcCalls s @ [Send channel args]\<rparr>)"
    and "globals_ipcRenderer_postMessage channel message transfer s =
           (Inr (), s\<lparr>ipcCalls := ipcCalls s @ [PostMessage channel message transfer]\<rparr>)"
    and "globals_ipcRenderer_invoke channel args s =
           (Inr (Some (Promise (promiseCount s))),
            s\<lparr>ipcCalls := ipcCalls s @ [Invoke channel args], promiseCount := Suc (promiseCount s)\<rparr>)"
    and "globals_ipcRenderer_on channel listener s =
           (Inr (), s\<lparr>ipcCalls := ipcCalls s @ [On channel (PageListener listener)]\<rparr>)"
    and "globals_ipcRenderer_once channel listener s =
           (Inr (), s\<lparr>ipcCalls := ipcCalls s @ [Once channel (PageListener listener)]\<rparr>)"
    and "globals_ipcRenderer_removeListener channel listener s =
           (Inr (), s\<lparr>ipcCalls := ipcCalls s @ [RemoveListener channel (PageListener listener)]\<rparr>)"
  by (simp_all add: globals_ipcRenderer_defs ipcRenderer_defs validateIPC_valid [OF assms])

text \<open>
  C7: for a channel that does not start with \<open>vscode:\<close> (the empty string is one), each
  of the six exposed methods throws, and the state is the one before the call: no call
  was made on Electron's \<open>ipcRenderer\<close>.
\<close>

theorem invalid_channel_throws:
  assumes "\<not> prefix ''vscode:'' channel"
  shows "(let e = Error (''Unsupported event IPC channel '' @ [CHR 0x27] @ channel @ [CHR 0x27]) in
          globals_ipcRenderer_send channel args s = (Inl e, s)
          \<and> globals_ipcRenderer_postMessage channel message transfer s = (Inl e, s)
          \<and> globals_ipcRenderer_invoke channel args s = (Inl e, s)
          \<and> globals_ipcRenderer_on channel listener s = (Inl e, s)
          \<and> globals_ipcRenderer_once channel listener s = (Inl e, s)
          \<and> globals_ipcRenderer_removeListener channel listener s = (Inl e, s))"
  by (simp add: globals_ipcRenderer_defs validateIPC_invalid [OF assms])

theorem invalid_channel_throws_witness:
  "\<not> prefix ''vscode:'' []
   \<and> \<not> prefix ''vscode:'' ''vscode''
   \<and> globals_ipcRenderer_send [] [1, 2] (initialRenderer Map.empty :: nat renderer)
       = (Inl (Error (''Unsupported event IPC channel '' @ [CHR 0x27] @ [CHR 0x27])),
          initialRenderer Map.empty)
   \<and> fst (globals_ipcRenderer_invoke ''vscode'' [1, 2] (initialRenderer Map.empty :: nat renderer))
       = Inl (Error (''Unsupported event IPC channel '' @ [CHR 0x27] @ ''vscode'' @ [CHR 0x27]))
   \<and> ipcCalls (snd (globals_ipcRenderer_removeListener ''vscode'' 3
                       (initialRenderer Map.empty :: nat renderer))) = []"
proof -
  have empty: "\<not> prefix ''vscode:'' []" and short: "\<not> prefix ''vscode:'' ''vscode''"
    by simp_all
  note a = invalid_channel_throws
    [OF empty, where args = "[1, 2]" and s = "initialRenderer Map.empty :: nat renderer"
       and message = 0 and transfer = 0 and listener = 3]
  note b = invalid_channel_throws
    [OF short, where args = "[1, 2]" and s = "initialRenderer Map.empty :: nat renderer"
       and message = 0 and transfer = 0 and listener = 3]
  have "ipcCalls (initialRenderer Map.empty :: nat renderer) = []"
    by (simp add: initialRenderer_def)
  with a b empty short show ?thesis
    by (simp add: Let_def)
qed

text \<open>
  C8: the exposed \<open>process.on\<close> throws for every event type but \<open>uncaughtException\<close> and
  leaves the state as it was, so the callback is not handed to \<open>process.on\<close>; for
  \<open>uncaughtException\<close> it does not throw and hands the callback to \<open>process.on\<close>.
\<close>

theorem process_on_only_uncaughtException:
  "(type \<noteq> ''uncaughtException'' \<longrightarrow>
      globals_process_on type callback s =
        (Inl (Error (''Unsupported process event '' @ [CHR 0x27] @ type @ [CHR 0x27])), s))
   \<and> globals_process_on ''uncaughtException'' callback s =
        (Inr (), s\<lparr>processOnCalls := processOnCalls s @ [(''uncaughtException'', callback)]\<rparr>)"
  by (simp add: globals_process_on_def validateProcessEventType_def process_on_def)

theorem process_on_only_uncaughtException_witness:
  "fst (globals_process_on ''exit'' (7::nat) (initialRenderer Map.empty))
     = Inl (Error (''Unsupported process event '' @ [CHR 0x27] @ ''exit'' @ [CHR 0x27]))
   \<and> processOnCalls (snd (globals_process_on ''exit'' (7::nat) (initialRenderer Map.empty))) = []
   \<and> fst (globals_process_on ''uncaughtException'' (7::nat) (initialRenderer Map.empty)) = Inr ()
   \<and> processOnCalls (snd (globals_process_on ''uncaughtException'' (7::nat) (initialRenderer Map.empty)))
     = [(''uncaughtException'', 7)]"
  using process_on_only_uncaughtException [of "''exit''" "7::nat" "initialRenderer Map.empty"]
  by (simp add: initialRenderer_def)

text \<open>The registered listener writes the environment and never the cache.\<close>

lemma acceptShellEnv_keeps_cache:
  "resolvedEnv (acceptShellEnv p userEnv shellEnv s) = resolvedEnv s
   \<and> ipcCalls (acceptShellEnv p userEnv shellEnv s) = ipcCalls s"
  by (simp add: acceptShellEnv_def)

lemma resolveEnv_cached:
  "resolvedEnv s = Some p \<Longrightarrow> resolveEnv userEnv s = (p, s)"
  by (simp add: resolveEnv_def)

lemma resolveEnvCalls_cached:
  "resolvedEnv s = Some p \<Longrightarrow> resolveEnvCalls userEnvs s = (replicate (length userEnvs) p, s)"
  by (induction userEnvs) (simp_all add: resolveEnv_cached)

lemma resolveEnv_first:
  assumes "resolvedEnv s = None"
  shows "fst (resolveEnv userEnv s) = Promise (promiseCount s)"
    and "processEnv (snd (resolveEnv userEnv s)) = processEnv s ++ userEnv"
    and "ipcCalls (snd (resolveEnv userEnv s)) =
           ipcCalls s @ [Once ''vscode:acceptShellEnv''
                           (AcceptShellEnvListener (Promise (promiseCount s)) userEnv),
                         Send ''vscode:fetchShellEnv'' []]"
    and "resolvedEnv (snd (resolveEnv userEnv s)) = Some (Promise (promiseCount s))"
  using assms by (simp_all add: resolveEnv_def ipcRenderer_defs Let_def)

text \<open>
  C9: in a state where nothing is cached, a call of \<open>resolveEnv\<close> assigns \<open>userEnv\<close> to
  \<open>process.env\<close>, registers the listener and sends \<open>vscode:fetchShellEnv\<close> once, and
  stores the new promise; every call after it, whatever its argument, returns that
  promise and leaves the whole state as it is (no call on \<open>ipcRenderer\<close>, no
  assignment to \<open>process.env\<close>). The exposed \<open>process.resolveEnv\<close> is \<open>resolveEnv\<close>.
\<close>

theorem resolveEnv_caches_promise:
  "(resolvedEnv s = None \<longrightarrow>
      (let p = fst (resolveEnv userEnv s); s' = snd (resolveEnv userEnv s) in
         processEnv s' = processEnv s ++ userEnv
         \<and> ipcCalls s' =
             ipcCalls s @ [Once ''vscode:acceptShellEnv'' (AcceptShellEnvListener p userEnv),
                           Send ''vscode:fetchShellEnv'' []]
         \<and> resolvedEnv s' = Some p
         \<and> resolveEnv otherEnv s' = (p, s')
         \<and> resolveEnvCalls userEnvs s' = (replicate (length userEnvs) p, s')))
   \<and> (resolvedEnv s = Some q \<longrightarrow> resolveEnv userEnv s = (q, s))
   \<and> globals_process_resolveEnv userEnv s = resolveEnv userEnv s"
proof -
  have "resolveEnv otherEnv (snd (resolveEnv userEnv s)) =
          (fst (resolveEnv userEnv s), snd (resolveEnv userEnv s))"
    and "resolveEnvCalls userEnvs (snd (resolveEnv userEnv s)) =
          (replicate (length userEnvs) (fst (resolveEnv userEnv s)), snd (resolveEnv userEnv s))"
    if "resolvedEnv s = None"
    using resolveEnv_first(1,4) [OF that, of userEnv]
    by (simp_all add: resolveEnv_cached resolveEnvCalls_cached)
  then show ?thesis
    by (simp add: Let_def resolveEnv_first resolveEnv_cached globals_process_resolveEnv_def)
qed

theorem resolveEnv_caches_promise_witness:
  "resolvedEnv (initialRenderer [''PATH'' \<mapsto> ''/bin''] :: nat renderer) = None
   \<and> fst (resolveEnv [''A'' \<mapsto> ''1''] (initialRenderer [''PATH'' \<mapsto> ''/bin''] :: nat renderer))
       = Promise 0
   \<and> ipcCalls (snd (resolveEnv [''A'' \<mapsto> ''1''] (initialRenderer [''PATH'' \<mapsto> ''/bin''] :: nat renderer)))
       = [Once ''vscode:acceptShellEnv'' (AcceptShellEnvListener (Promise 0) [''A'' \<mapsto> ''1'']),
          Send ''vscode:fetchShellEnv'' []]
   \<and> fst (resolveEnv [''B'' \<mapsto> ''2'']
            (snd (resolveEnv [''A'' \<mapsto> ''1''] (initialRenderer [''PATH'' \<mapsto> ''/bin''] :: nat renderer))))
       = Promise 0
   \<and> snd (resolveEnv [''B'' \<mapsto> ''2'']
            (snd (resolveEnv [''A'' \<mapsto> ''1''] (initialRenderer [''PATH'' \<mapsto> ''/bin''] :: nat renderer))))
       = snd (resolveEnv [''A'' \<mapsto> ''1''] (initialRenderer [''PATH'' \<mapsto> ''/bin''] :: nat renderer))"
  using resolveEnv_caches_promise
    [of "initialRenderer [''PATH'' \<mapsto> ''/bin''] :: nat renderer" "[''A'' \<mapsto> ''1'']"
        "[''B'' \<mapsto> ''2'']" "[]"]
  by (simp add: initialRenderer_def Let_def resolveEnv_first(1))

end
